theory Spec2Isabelle
  imports Main "HOL-Library.Word" "HOL-Library.List_Lexorder" "HOL-Library.Multiset"
begin

section \<open>Strings and numbers of the front end\<close>

text \<open>
  A JavaScript string is a sequence of UTF-16 code units. Strings that arrive as data
  (file ids, names, titles) are modelled as lists of 16-bit words; the order on them
  (lexicographic on code units, a proper prefix first) is the order that the default
  \<^verbatim>\<open>Array.prototype.sort()\<close> uses on strings. String literals of the source (labels,
  icon names, the request path) are written as HOL strings.

  The ids of connections are the integral ids of the backend's sync records
  (\<^verbatim>\<open>number | undefined\<close>), modelled as \<open>int option\<close>.
\<close>

type_synonym jsstring = "16 word list"

text \<open>The decimal text that a template literal gives for a non-negative integer.\<close>

fun decimal :: "nat \<Rightarrow> string" where
  "decimal n =
     (if n < 10 then [''0123456789'' ! n]
      else decimal (n div 10) @ [''0123456789'' ! (n mod 10)])"

section \<open>Types of \<^verbatim>\<open>lib/api/sync/types\<close>\<close>

datatype Provider = Google | Azure | DropBox | Notion | GitHub

text \<open>
  \<^verbatim>\<open>KMSElement\<close>, with the scalar fields of the interface; the optional fields and the
  nested \<^verbatim>\<open>brains\<close>, \<^verbatim>\<open>parentKMSElement\<close> and \<^verbatim>\<open>fromProvider\<close> are read by none of the
  functions below.
\<close>

record KMSElement =
  id_kms :: jsstring
  sync_file_id :: "jsstring option"
  is_folder :: bool
  sync_id :: "int option"
  parent_id :: "jsstring option"
  source :: jsstring
  last_synced_at :: jsstring

text \<open>\<^verbatim>\<open>OpenedConnection\<close>: its selected files are an array of \<^verbatim>\<open>KMSElement\<close>.\<close>

record OpenedConnection =
  user_sync_id :: int
  id_conn :: "int option"
  provider :: Provider
  submitted :: bool
  selectedFiles :: "KMSElement list"
  name :: jsstring
  last_synced :: jsstring
  cleaned :: "bool option"

section \<open>\<^verbatim>\<open>lib/helpers/handleConnectionButtons.ts\<close>\<close>

text \<open>
  The two React state cells that the callbacks write, \<^verbatim>\<open>openedConnections\<close> and
  \<^verbatim>\<open>currentSyncId\<close>; a callback is the function from the state before the click to the
  state after it.
\<close>

record ConnectionsState =
  openedConnections :: "OpenedConnection list"
  currentSyncId :: "int option"

datatype ButtonType = dangerous | primary

record ButtonProps =
  label :: string
  type :: ButtonType
  disabled :: bool
  callback :: "ConnectionsState \<Rightarrow> ConnectionsState"

text \<open>
  The module reads \<^verbatim>\<open>selectedFiles.files\<close>. The selected files are an array, and an array
  has no property \<^verbatim>\<open>files\<close>: the read gives \<^verbatim>\<open>undefined\<close>, here \<open>None\<close>. Reading
  \<^verbatim>\<open>length\<close> of \<^verbatim>\<open>undefined\<close>, or calling \<^verbatim>\<open>map\<close> on it, throws a \<^verbatim>\<open>TypeError\<close>; a call
  that throws returns \<open>Inl TypeError\<close>.
\<close>

datatype js_error = TypeError

definition files :: "KMSElement list \<Rightarrow> KMSElement list option" where
  "files selected = None"

definition length_prop :: "'a list option \<Rightarrow> js_error + nat" where
  "length_prop v = (case v of None \<Rightarrow> Inl TypeError | Some xs \<Rightarrow> Inr (length xs))"

text \<open>
  \<^verbatim>\<open>isRemoveAll\<close>: the right operand of \<^verbatim>\<open>&&\<close> is evaluated only when the connection being
  edited is defined and submitted.
\<close>

definition isRemoveAll :: "OpenedConnection \<Rightarrow> OpenedConnection option \<Rightarrow> js_error + bool" where
  "isRemoveAll matchingOpenedConnection currentConnection =
     (if (case currentConnection of None \<Rightarrow> False | Some c \<Rightarrow> submitted c)
      then (case length_prop (files (selectedFiles matchingOpenedConnection)) of
              Inl e \<Rightarrow> Inl e
            | Inr n \<Rightarrow> Inr (n = 0))
      else Inr False)"

text \<open>The \<^verbatim>\<open>for\<close> loop of \<^verbatim>\<open>arraysAreEqual\<close>, from index \<open>i\<close> on.\<close>

function arraysAreEqual_loop :: "nat \<Rightarrow> jsstring list \<Rightarrow> jsstring list \<Rightarrow> bool" where
  "arraysAreEqual_loop i arr1 arr2 =
     (if i < length arr1
      then (if arr1 ! i \<noteq> arr2 ! i then False else arraysAreEqual_loop (i + 1) arr1 arr2)
      else True)"
  by pat_completeness auto
termination
  by (relation "measure (\<lambda>(i, arr1, arr2). length arr1 - i)") auto

declare arraysAreEqual_loop.simps [simp del]

text \<open>
  The loop runs only when the lengths agree, so every read \<open>arr2 ! i\<close> is in range.
\<close>

definition arraysAreEqual :: "jsstring list \<Rightarrow> jsstring list \<Rightarrow> bool" where
  "arraysAreEqual arr1 arr2 =
     (if length arr1 \<noteq> length arr2 then False else arraysAreEqual_loop 0 arr1 arr2)"

text \<open>
  \<^verbatim>\<open>findIndex\<close>: the index of the first element that satisfies the predicate, \<open>None\<close> for
  the \<^verbatim>\<open>-1\<close> of the source.
\<close>

fun findIndex :: "('a \<Rightarrow> bool) \<Rightarrow> 'a list \<Rightarrow> nat option" where
  "findIndex P [] = None"
| "findIndex P (x # xs) =
     (if P x then Some 0 else (case findIndex P xs of None \<Rightarrow> None | Some i \<Rightarrow> Some (i + 1)))"

definition addConnection :: "int option \<Rightarrow> ConnectionsState \<Rightarrow> ConnectionsState" where
  "addConnection syncId st =
     (let prevConnections = openedConnections st;
          newConnections =
            (case findIndex (\<lambda>connection. id_conn connection = syncId) prevConnections of
               Some connectionIndex \<Rightarrow>
                 prevConnections[connectionIndex :=
                   (prevConnections ! connectionIndex)\<lparr>submitted := True\<rparr>]
             | None \<Rightarrow> prevConnections)
      in st\<lparr>openedConnections := newConnections, currentSyncId := None\<rparr>)"

definition removeConnection :: "int option \<Rightarrow> ConnectionsState \<Rightarrow> ConnectionsState" where
  "removeConnection syncId st =
     st\<lparr>openedConnections :=
          filter (\<lambda>connection. id_conn connection \<noteq> syncId) (openedConnections st),
        currentSyncId := None\<rparr>"

text \<open>
  \<^verbatim>\<open>handleGetButtonProps\<close>. The two setters are the state cells above; the remaining
  arguments are the connection being edited (\<open>None\<close> for \<^verbatim>\<open>undefined\<close>), the opened
  connections and the current sync id. \<^verbatim>\<open>find\<close> returns the first connection with the id
  of the connection being edited. In the last \<^verbatim>\<open>return\<close> the optional chain stops at an
  undefined matching connection and \<^verbatim>\<open>!undefined\<close> is \<^verbatim>\<open>true\<close>; with a matching connection
  the chain goes on to \<^verbatim>\<open>selectedFiles.files.length\<close>. The sorted id arrays are fresh
  arrays made by \<^verbatim>\<open>map\<close>, so sorting them in place changes no argument.
\<close>

definition handleGetButtonProps ::
  "OpenedConnection option \<Rightarrow> OpenedConnection list \<Rightarrow> int option \<Rightarrow> js_error + ButtonProps" where
  "handleGetButtonProps currentConnection openedConns syncId =
     (let matchingOpenedConnection =
            (case currentConnection of
               None \<Rightarrow> None
             | Some c \<Rightarrow> find (\<lambda>conn. id_conn conn = id_conn c) openedConns);
          addSpecificFiles =
            (case matchingOpenedConnection of
               None \<Rightarrow>
                 Inr \<lparr>label = ''Add specific files'', type = primary, disabled = True,
                      callback = addConnection syncId\<rparr>
             | Some m \<Rightarrow>
                 (case length_prop (files (selectedFiles m)) of
                    Inl e \<Rightarrow> Inl e
                  | Inr n \<Rightarrow>
                      Inr \<lparr>label = ''Add specific files'', type = primary, disabled = (n = 0),
                           callback = addConnection syncId\<rparr>))
      in case matchingOpenedConnection of
           None \<Rightarrow> addSpecificFiles
         | Some m \<Rightarrow>
             (case isRemoveAll m currentConnection of
                Inl e \<Rightarrow> Inl e
              | Inr remove \<Rightarrow>
                  if remove
                  then Inr \<lparr>label = ''Remove All'', type = dangerous, disabled = False,
                            callback = removeConnection syncId\<rparr>
                  else (case currentConnection of
                          None \<Rightarrow> addSpecificFiles
                        | Some c \<Rightarrow>
                            if submitted c
                            then (case files (selectedFiles m) of
                                    None \<Rightarrow> Inl TypeError
                                  | Some matchingFiles \<Rightarrow>
                                      (case files (selectedFiles c) of
                                         None \<Rightarrow> Inl TypeError
                                       | Some currentFiles \<Rightarrow>
                                           (let matchingSelectedFileIds =
                                                  sort (map id_kms matchingFiles);
                                                currentSelectedFileIds =
                                                  sort (map id_kms currentFiles);
                                                isDisabled =
                                                  arraysAreEqual matchingSelectedFileIds
                                                    currentSelectedFileIds
                                            in Inr \<lparr>label = ''Update added files'',
                                                    type = primary,
                                                    disabled =
                                                      (length matchingFiles = 0 \<or> isDisabled),
                                                    callback = addConnection syncId\<rparr>)))
                            else addSpecificFiles)))"

section \<open>\<^verbatim>\<open>lib/api/sync/sync.ts\<close>\<close>

definition createFilesSettings :: "KMSElement list \<Rightarrow> jsstring option list" where
  "createFilesSettings fs = map sync_file_id (filter (\<lambda>file. \<not> is_folder file) fs)"

definition createFoldersSettings :: "KMSElement list \<Rightarrow> jsstring option list" where
  "createFoldersSettings fs = map sync_file_id (filter (\<lambda>file. is_folder file) fs)"

text \<open>
  A call of the axios instance is the effect of \<^verbatim>\<open>syncFiles\<close>; the model returns the
  request that is issued: its verb, its path and the object sent as its body.
\<close>

datatype HttpMethod = GET | POST | PUT | DELETE

record SyncSettings =
  settings_files :: "jsstring option list"
  settings_folders :: "jsstring option list"

record SyncActiveBody =
  body_name :: jsstring
  syncs_user_id :: int
  settings :: SyncSettings
  brain_id :: jsstring

record Request =
  http_method :: HttpMethod
  url :: string
  data :: SyncActiveBody

definition syncFiles :: "OpenedConnection \<Rightarrow> jsstring \<Rightarrow> Request" where
  "syncFiles openedConnection brainId =
     \<lparr>http_method = POST, url = ''/sync/active'',
      data =
        \<lparr>body_name = name openedConnection,
         syncs_user_id = user_sync_id openedConnection,
         settings =
           \<lparr>settings_files = createFilesSettings (selectedFiles openedConnection),
            settings_folders = createFoldersSettings (selectedFiles openedConnection)\<rparr>,
         brain_id = brainId\<rparr>\<rparr>"

section \<open>The \<^verbatim>\<open>Notification\<close> component\<close>

text \<open>
  Modelled from the spec: the declarations of \<^verbatim>\<open>NotificationType\<close> and \<^verbatim>\<open>BulkNotification\<close>
  (\<^verbatim>\<open>types/types\<close>) are not among the sources. The spec gives a notification a status
  among \<^verbatim>\<open>info\<close>, \<^verbatim>\<open>success\<close>, \<^verbatim>\<open>error\<close> and a bulk notification a category among
  \<^verbatim>\<open>upload\<close>, \<^verbatim>\<open>crawl\<close>, \<^verbatim>\<open>sync\<close>; the other fields are those the component reads.
\<close>

datatype NotificationStatus = info | success | error

datatype NotificationCategory = upload | crawl | sync

record NotificationType =
  id_notif :: jsstring
  title :: jsstring
  description :: jsstring
  status :: NotificationStatus

record BulkNotification =
  category :: NotificationCategory
  brain_id_bulk :: jsstring
  notifications :: "NotificationType list"

text \<open>
  What a component renders is a value: an icon with its props, the count with the style
  chosen for it and its text, a tooltip with the title it wraps. The style names of the
  SCSS module are the constructors of \<open>Style\<close>.
\<close>

datatype IconElement =
  LoaderIcon string string
| Icon string string string

datatype Style = style_warning | style_success | style_error

record CountElement =
  className :: "Style option"
  text_count :: string

record TooltipElement =
  tooltip :: jsstring
  key :: nat
  type_tooltip :: string
  span_title :: jsstring

text \<open>The text of the header: the one template whose category test holds.\<close>

definition NotificationHeader :: "BulkNotification \<Rightarrow> bool \<Rightarrow> string" where
  "NotificationHeader bulkNotification allNotifsProcessed =
     (if category bulkNotification = upload
      then (if allNotifsProcessed then ''Uploaded'' else ''Uploading'') @ '' files ''
      else []) @
     (if category bulkNotification = crawl
      then (if allNotifsProcessed then ''Crawled'' else ''Crawling'') @ '' websites ''
      else []) @
     (if category bulkNotification = sync
      then (if allNotifsProcessed then ''Synced'' else ''Syncing'') @ '' files ''
      else [])"

text \<open>\<^verbatim>\<open>LoaderIcon size color\<close> and \<^verbatim>\<open>Icon color name size\<close>.\<close>

definition NotificationIcon :: "NotificationType list \<Rightarrow> IconElement" where
  "NotificationIcon notifs =
     (let hasInfo = list_ex (\<lambda>notif. status notif = info) notifs;
          allSuccess = list_all (\<lambda>notif. status notif = success) notifs
      in if hasInfo then LoaderIcon ''small'' ''primary''
         else if allSuccess then Icon ''success'' ''check'' ''small''
         else Icon ''warning'' ''warning'' ''small'')"

definition NotificationCount :: "NotificationType list \<Rightarrow> CountElement" where
  "NotificationCount notifs =
     (let total = length notifs;
          completed = length (filter (\<lambda>notif. status notif \<noteq> info) notifs);
          hasError = list_ex (\<lambda>notif. status notif = error) notifs;
          cls = (if completed = total
                 then (if hasError then Some style_warning else Some style_success)
                 else None)
      in \<lparr>className = cls, text_count = decimal completed @ '' / '' @ decimal total\<rparr>)"

text \<open>
  The two \<^verbatim>\<open>useState\<close> cells of the component, both \<open>False\<close> at first, and the click
  handlers of the success and of the error entry of the status report.
\<close>

record NotificationState =
  errorsOpened :: bool
  successOpened :: bool

definition initialState :: NotificationState where
  "initialState = \<lparr>errorsOpened = False, successOpened = False\<rparr>"

definition onClickSuccess :: "NotificationState \<Rightarrow> NotificationState" where
  "onClickSuccess st = \<lparr>errorsOpened = False, successOpened = \<not> successOpened st\<rparr>"

definition onClickError :: "NotificationState \<Rightarrow> NotificationState" where
  "onClickError st = \<lparr>errorsOpened = \<not> errorsOpened st, successOpened = False\<rparr>"

text \<open>
  The body is the loader wrapper (icon, count and the loading bar, a component outside the
  sources that receives the bulk notification) or the status report, whose success and
  error entries are present when some member has that status and show how many have it.
\<close>

record ReportEntry =
  class_entry :: Style
  icon_entry :: IconElement
  count_entry :: nat

datatype BodyElement =
  loader_wrapper IconElement CountElement BulkNotification
| status_report "ReportEntry option" "ReportEntry option"

record NotificationView =
  last :: bool
  header :: string
  body :: BodyElement
  errors_list :: "TooltipElement list option"
  success_list :: "TooltipElement list option"

definition Notification :: "BulkNotification \<Rightarrow> bool \<Rightarrow> NotificationState \<Rightarrow> NotificationView" where
  "Notification bulkNotification lastNotification st =
     (let allNotifsProcessed =
            list_all (\<lambda>notif. status notif \<noteq> info) (notifications bulkNotification)
      in \<lparr>last = lastNotification,
          header = NotificationHeader bulkNotification allNotifsProcessed,
          body =
            (if list_ex (\<lambda>notif. status notif = info) (notifications bulkNotification)
             then loader_wrapper
                    (NotificationIcon (notifications bulkNotification))
                    (NotificationCount (notifications bulkNotification))
                    bulkNotification
             else status_report
                    (if list_ex (\<lambda>notif. status notif = success) (notifications bulkNotification)
                     then Some \<lparr>class_entry = style_success,
                                icon_entry = Icon ''success'' ''check'' ''normal'',
                                count_entry =
                                  length (filter (\<lambda>notif. status notif = success)
                                            (notifications bulkNotification))\<rparr>
                     else None)
                    (if list_ex (\<lambda>notif. status notif = error) (notifications bulkNotification)
                     then Some \<lparr>class_entry = style_error,
                                icon_entry = Icon ''dangerous'' ''warning'' ''normal'',
                                count_entry =
                                  length (filter (\<lambda>notif. status notif = error)
                                            (notifications bulkNotification))\<rparr>
                     else None)),
          errors_list =
            (if errorsOpened st
             then Some (map (\<lambda>(index, notif).
                               \<lparr>tooltip = description notif, key = index,
                                type_tooltip = ''dangerous'', span_title = title notif\<rparr>)
                          (enumerate 0 (filter (\<lambda>notif. status notif = error)
                                          (notifications bulkNotification))))
             else None),
          success_list =
            (if successOpened st
             then Some (map (\<lambda>(index, notif).
                               \<lparr>tooltip = description notif, key = index,
                                type_tooltip = ''success'', span_title = title notif\<rparr>)
                          (enumerate 0 (filter (\<lambda>notif. status notif = success)
                                          (notifications bulkNotification))))
             else None)\<rparr>)"

section \<open>Example values\<close>

text \<open>
  Small connections, notifications and selected elements on which the theorems below are
  instantiated.
\<close>

definition example_notification :: "jsstring \<Rightarrow> NotificationStatus \<Rightarrow> NotificationType" where
  "example_notification t s = \<lparr>id_notif = t, title = t, description = 0x21 # t, status = s\<rparr>"

definition example_bulk :: "NotificationType list \<Rightarrow> BulkNotification" where
  "example_bulk ns = \<lparr>category = upload, brain_id_bulk = [0x62], notifications = ns\<rparr>"

definition example_element :: "jsstring \<Rightarrow> bool \<Rightarrow> KMSElement" where
  "example_element i folder =
     \<lparr>id_kms = i, sync_file_id = Some i, is_folder = folder, sync_id = Some 1,
      parent_id = None, source = [], last_synced_at = []\<rparr>"

definition example_sync_connection :: "KMSElement list \<Rightarrow> OpenedConnection" where
  "example_sync_connection sel =
     \<lparr>user_sync_id = 5, id_conn = Some 7, provider = Google, submitted = True,
      selectedFiles = sel, name = [0x6E], last_synced = [], cleaned = None\<rparr>"

definition example_connection :: "int \<Rightarrow> bool \<Rightarrow> KMSElement list \<Rightarrow> OpenedConnection" where
  "example_connection i s sel =
     \<lparr>user_sync_id = 1, id_conn = Some i, provider = Google, submitted = s,
      selectedFiles = sel, name = [], last_synced = [], cleaned = None\<rparr>"

section \<open>The comparison of id arrays\<close>

text \<open>
  The loop returns \<open>True\<close> exactly when the two arrays agree from index \<open>i\<close> on; the proof
  follows the recursion of the loop.
\<close>

lemma arraysAreEqual_loop_iff:
  "length arr1 = length arr2 \<Longrightarrow>
   arraysAreEqual_loop i arr1 arr2 \<longleftrightarrow> (\<forall>j. i \<le> j \<and> j < length arr1 \<longrightarrow> arr1 ! j = arr2 ! j)"
proof (induction i arr1 arr2 rule: arraysAreEqual_loop.induct)
  case (1 i arr1 arr2)
  show ?case
  proof (cases "i < length arr1")
    case False
    then show ?thesis by (auto simp add: arraysAreEqual_loop.simps [of i])
  next
    case True
    show ?thesis
    proof (cases "arr1 ! i = arr2 ! i")
      case False
      with True show ?thesis
        by (auto simp add: arraysAreEqual_loop.simps [of i])
    next
      case eq: True
      have "arraysAreEqual_loop i arr1 arr2 = arraysAreEqual_loop (i + 1) arr1 arr2"
        using True eq by (simp add: arraysAreEqual_loop.simps [of i])
      also have "\<dots> \<longleftrightarrow> (\<forall>j. i + 1 \<le> j \<and> j < length arr1 \<longrightarrow> arr1 ! j = arr2 ! j)"
        using "1.IH" [OF True] eq "1.prems" by simp
      also have "\<dots> \<longleftrightarrow> (\<forall>j. i \<le> j \<and> j < length arr1 \<longrightarrow> arr1 ! j = arr2 ! j)"
      proof -
        have "\<And>j. i \<le> j \<Longrightarrow> j = i \<or> i + 1 \<le> j" by arith
        then show ?thesis using eq by (metis Suc_eq_plus1 Suc_leD)
      qed
      finally show ?thesis .
    qed
  qed
qed

lemma arraysAreEqual_positions:
  "arraysAreEqual arr1 arr2 \<longleftrightarrow>
     length arr1 = length arr2 \<and> (\<forall>i < length arr1. arr1 ! i = arr2 ! i)"
  by (simp add: arraysAreEqual_def arraysAreEqual_loop_iff)

lemma arraysAreEqual_eq: "arraysAreEqual arr1 arr2 \<longleftrightarrow> arr1 = arr2"
  by (simp add: arraysAreEqual_positions list_eq_iff_nth_eq)

text \<open>Two arrays have the same sorted form exactly when they are permutations of each other.\<close>

lemma sort_eq_iff_mset: "sort (xs :: jsstring list) = sort ys \<longleftrightarrow> mset xs = mset ys"
proof
  assume "sort xs = sort ys"
  then have "mset (sort xs) = mset (sort ys)" by simp
  then show "mset xs = mset ys" by simp
next
  assume "mset xs = mset ys"
  then show "sort xs = sort ys"
    by (intro properties_for_sort) simp_all
qed

section \<open>Counting and listing notifications\<close>

lemma completed_less_total:
  assumes "\<exists>notif \<in> set ns. status notif = info"
  shows "length (filter (\<lambda>notif. status notif \<noteq> info) ns) < length ns"
proof -
  from assms obtain notif where "notif \<in> set ns" and "\<not> status notif \<noteq> info"
    by auto
  then show ?thesis by (rule length_filter_less)
qed

lemma completed_eq_total:
  assumes "\<forall>notif \<in> set ns. status notif \<noteq> info"
  shows "length (filter (\<lambda>notif. status notif \<noteq> info) ns) = length ns"
  using assms by (induction ns) simp_all

lemma completed_split:
  "length (filter (\<lambda>notif. status notif \<noteq> info) ns)
     = length (filter (\<lambda>notif. status notif = success) ns)
       + length (filter (\<lambda>notif. status notif = error) ns)"
proof (induction ns)
  case Nil
  show ?case by simp
next
  case (Cons n ns)
  then show ?case by (cases "status n") simp_all
qed

text \<open>
  The entries of an opened list carry the titles and descriptions of the listed
  notifications, in order, and their positions as keys.
\<close>

lemma rendered_titles:
  "map span_title
     (map (\<lambda>(index, notif).
             \<lparr>tooltip = description notif, key = index,
              type_tooltip = ty, span_title = title notif\<rparr>)
        (enumerate k xs)) = map title xs"
  by (induction xs arbitrary: k) simp_all

lemma rendered_tooltips:
  "map tooltip
     (map (\<lambda>(index, notif).
             \<lparr>tooltip = description notif, key = index,
              type_tooltip = ty, span_title = title notif\<rparr>)
        (enumerate k xs)) = map description xs"
  by (induction xs arbitrary: k) simp_all

lemma rendered_keys:
  "map key
     (map (\<lambda>(index, notif).
             \<lparr>tooltip = description notif, key = index,
              type_tooltip = ty, span_title = title notif\<rparr>)
        (enumerate k xs)) = [k..<k + length xs]"
  by (induction xs arbitrary: k) (simp_all add: upt_rec)

section \<open>The affordance of a connection\<close>



text \<open>
  C1. When the connection being edited has \<open>submitted = True\<close> and the opened connection
  with its id has no selected file, the button should be "Remove All", dangerous and
  enabled. On such an input (connection 7, submitted, no selected file, found among the
  opened connections) \<^verbatim>\<open>isRemoveAll\<close> reads \<^verbatim>\<open>selectedFiles.files.length\<close> and the call throws
  a \<^verbatim>\<open>TypeError\<close> instead of returning the button.
\<close>

theorem remove_all_throws:
  "submitted (example_connection 7 True [])
   \<and> id_conn (example_connection 7 False []) = id_conn (example_connection 7 True [])
   \<and> selectedFiles (example_connection 7 False []) = []
   \<and> handleGetButtonProps (Some (example_connection 7 True []))
        [example_connection 7 False []] (Some 7) = Inl TypeError"
  by (simp add: handleGetButtonProps_def isRemoveAll_def files_def length_prop_def
      example_connection_def)

text \<open>
  C2. When the connection being edited has \<open>submitted = True\<close> and the opened connection
  with its id has at least one selected file, the button should be "Update added files",
  primary, and disabled exactly when the two sorted id arrays agree. On
  such an input \<^verbatim>\<open>isRemoveAll\<close> is evaluated first, reads \<^verbatim>\<open>selectedFiles.files.length\<close>, and
  the call throws a \<^verbatim>\<open>TypeError\<close> before the update branch is reached.
\<close>

theorem update_added_files_throws:
  "submitted (example_connection 7 True [example_element [0x61] False])
   \<and> id_conn (example_connection 7 False [example_element [0x61] False, example_element [0x62] False])
       = id_conn (example_connection 7 True [example_element [0x61] False])
   \<and> selectedFiles (example_connection 7 False
         [example_element [0x61] False, example_element [0x62] False]) \<noteq> []
   \<and> handleGetButtonProps (Some (example_connection 7 True [example_element [0x61] False]))
        [example_connection 7 False [example_element [0x61] False, example_element [0x62] False]]
        (Some 7) = Inl TypeError"
  by (simp add: handleGetButtonProps_def isRemoveAll_def files_def length_prop_def
      example_connection_def)




text \<open>
  C9. When the connection being edited is undefined, or no opened connection has its id,
  the button is "Add specific files", primary and disabled, whatever the submitted flag and
  the selected files of the connection being edited.
\<close>

theorem add_specific_files_disabled_without_match:
  assumes "cur = None \<or>
           (\<exists>c. cur = Some c \<and> (\<forall>conn \<in> set openedConns. id_conn conn \<noteq> id_conn c))"
  shows "\<exists>r. handleGetButtonProps cur openedConns syncId = Inr r
    \<and> label r = ''Add specific files''
    \<and> type r = primary
    \<and> disabled r = True"
proof -
  have "(case cur of None \<Rightarrow> None
         | Some c \<Rightarrow> find (\<lambda>conn. id_conn conn = id_conn c) openedConns) = None"
    using assms by (auto simp add: find_None_iff)
  then show ?thesis
    by (simp add: handleGetButtonProps_def)
qed

theorem add_specific_files_disabled_without_match_witness:
  "list_all (\<lambda>conn. id_conn conn
       \<noteq> id_conn (example_connection 7 True [example_element [0x61] False]))
      [example_connection 3 True [example_element [0x61] False]]
   \<and> submitted (example_connection 7 True [example_element [0x61] False])
   \<and> selectedFiles (example_connection 7 True [example_element [0x61] False]) \<noteq> []
   \<and> (\<exists>r. handleGetButtonProps (Some (example_connection 7 True [example_element [0x61] False]))
        [example_connection 3 True [example_element [0x61] False]] (Some 7) = Inr r
      \<and> label r = ''Add specific files''
      \<and> type r = primary
      \<and> disabled r = True)"
  using add_specific_files_disabled_without_match
    [of "Some (example_connection 7 True [example_element [0x61] False])"
        "[example_connection 3 True [example_element [0x61] False]]" "Some 7"]
  by (simp add: example_connection_def)

text \<open>
  C8. The check of the update affordance, \<^verbatim>\<open>arraysAreEqual\<close> on the two sorted id arrays,
  is true exactly when the id sequences have the same length and agree at every position
  once each is sorted. Hence it does not change when either list of selected files is
  permuted, and ids are not de-duplicated: two lists with the same set of ids in which
  some id occurs a different number of times compare unequal.
\<close>

theorem sorted_ids_equality:
  fixes fs gs fs' gs' :: "KMSElement list"
  shows "(arraysAreEqual (sort (map id_kms fs)) (sort (map id_kms gs)) \<longleftrightarrow>
            length (map id_kms fs) = length (map id_kms gs)
            \<and> (\<forall>i < length (map id_kms fs).
                  sort (map id_kms fs) ! i = sort (map id_kms gs) ! i))
    \<and> (mset fs' = mset fs \<longrightarrow> mset gs' = mset gs \<longrightarrow>
          arraysAreEqual (sort (map id_kms fs')) (sort (map id_kms gs'))
            = arraysAreEqual (sort (map id_kms fs)) (sort (map id_kms gs)))
    \<and> (set (map id_kms fs) = set (map id_kms gs) \<longrightarrow>
          (\<exists>x. count_list (map id_kms fs) x \<noteq> count_list (map id_kms gs) x) \<longrightarrow>
          \<not> arraysAreEqual (sort (map id_kms fs)) (sort (map id_kms gs)))"
proof (intro conjI impI)
  show "arraysAreEqual (sort (map id_kms fs)) (sort (map id_kms gs)) \<longleftrightarrow>
          length (map id_kms fs) = length (map id_kms gs)
          \<and> (\<forall>i < length (map id_kms fs).
                sort (map id_kms fs) ! i = sort (map id_kms gs) ! i)"
    by (simp add: arraysAreEqual_positions)
next
  assume "mset fs' = mset fs" and "mset gs' = mset gs"
  then have "mset (map id_kms fs') = mset (map id_kms fs)"
    and "mset (map id_kms gs') = mset (map id_kms gs)"
    by (metis mset_map)+
  then have "sort (map id_kms fs') = sort (map id_kms fs)"
    and "sort (map id_kms gs') = sort (map id_kms gs)"
    by (simp_all only: sort_eq_iff_mset)
  then show "arraysAreEqual (sort (map id_kms fs')) (sort (map id_kms gs'))
               = arraysAreEqual (sort (map id_kms fs)) (sort (map id_kms gs))"
    by simp
next
  assume "\<exists>x. count_list (map id_kms fs) x \<noteq> count_list (map id_kms gs) x"
  then obtain x where "count (mset (map id_kms fs)) x \<noteq> count (mset (map id_kms gs)) x"
    by (auto simp only: count_mset)
  then have "mset (map id_kms fs) \<noteq> mset (map id_kms gs)" by auto
  then show "\<not> arraysAreEqual (sort (map id_kms fs)) (sort (map id_kms gs))"
    by (simp only: arraysAreEqual_eq sort_eq_iff_mset not_False_eq_True)
qed

theorem sorted_ids_equality_witness:
  "mset [example_element [0x61] False, example_element [0x62] False] = mset [example_element [0x62] False, example_element [0x61] False]
   \<and> mset [example_element [0x62] False, example_element [0x61] False, example_element [0x62] False]
       = mset [example_element [0x61] False, example_element [0x62] False, example_element [0x62] False]
   \<and> set (map id_kms [example_element [0x62] False, example_element [0x61] False])
       = set (map id_kms [example_element [0x61] False, example_element [0x62] False, example_element [0x62] False])
   \<and> count_list (map id_kms [example_element [0x62] False, example_element [0x61] False]) [0x62]
       \<noteq> count_list (map id_kms [example_element [0x61] False, example_element [0x62] False, example_element [0x62] False]) [0x62]
   \<and> \<not> arraysAreEqual (sort (map id_kms [example_element [0x62] False, example_element [0x61] False]))
         (sort (map id_kms [example_element [0x61] False, example_element [0x62] False, example_element [0x62] False]))
   \<and> \<not> arraysAreEqual (sort (map id_kms [example_element [0x61] False, example_element [0x62] False]))
         (sort (map id_kms [example_element [0x62] False, example_element [0x61] False, example_element [0x62] False]))"
proof -
  have p1: "mset [example_element [0x61] False, example_element [0x62] False]
              = mset [example_element [0x62] False, example_element [0x61] False]"
    by (simp add: example_element_def)
  have p2: "mset [example_element [0x62] False, example_element [0x61] False, example_element [0x62] False]
              = mset [example_element [0x61] False, example_element [0x62] False, example_element [0x62] False]"
    by (simp add: example_element_def)
  have s: "set (map id_kms [example_element [0x62] False, example_element [0x61] False])
       = set (map id_kms [example_element [0x61] False, example_element [0x62] False, example_element [0x62] False])"
    by (auto simp add: example_element_def)
  have c: "count_list (map id_kms [example_element [0x62] False, example_element [0x61] False]) [0x62]
       \<noteq> count_list (map id_kms [example_element [0x61] False, example_element [0x62] False, example_element [0x62] False]) [0x62]"
    by (simp add: example_element_def)
  from c have ex: "\<exists>x. count_list (map id_kms [example_element [0x62] False, example_element [0x61] False]) x
       \<noteq> count_list (map id_kms [example_element [0x61] False, example_element [0x62] False, example_element [0x62] False]) x"
    by blast
  note inst = sorted_ids_equality
    [of "[example_element [0x62] False, example_element [0x61] False]"
        "[example_element [0x61] False, example_element [0x62] False, example_element [0x62] False]"
        "[example_element [0x61] False, example_element [0x62] False]"
        "[example_element [0x62] False, example_element [0x61] False, example_element [0x62] False]"]
  from inst s ex have n1: "\<not> arraysAreEqual (sort (map id_kms [example_element [0x62] False, example_element [0x61] False]))
         (sort (map id_kms [example_element [0x61] False, example_element [0x62] False, example_element [0x62] False]))"
    by blast
  from inst p1 p2 n1 have n2: "\<not> arraysAreEqual (sort (map id_kms [example_element [0x61] False, example_element [0x62] False]))
         (sort (map id_kms [example_element [0x62] False, example_element [0x61] False, example_element [0x62] False]))"
    by blast
  from p1 p2 s c n1 n2 show ?thesis by blast
qed

section \<open>The request of \<^verbatim>\<open>syncFiles\<close>\<close>

text \<open>
  C7. For every opened connection and brain id, \<^verbatim>\<open>syncFiles\<close> issues a POST to
  \<^verbatim>\<open>/sync/active\<close> whose body has the name of the connection, its \<^verbatim>\<open>user_sync_id\<close> as
  \<^verbatim>\<open>syncs_user_id\<close>, the brain id as \<^verbatim>\<open>brain_id\<close>, and settings in which \<^verbatim>\<open>files\<close> lists the
  \<^verbatim>\<open>sync_file_id\<close> of the selected elements that are not folders and \<^verbatim>\<open>folders\<close> those of
  the selected elements that are folders, both in the order of the selection.
\<close>

theorem syncFiles_request:
  "http_method (syncFiles openedConnection brainId) = POST
   \<and> url (syncFiles openedConnection brainId) = ''/sync/active''
   \<and> body_name (data (syncFiles openedConnection brainId)) = name openedConnection
   \<and> syncs_user_id (data (syncFiles openedConnection brainId)) = user_sync_id openedConnection
   \<and> brain_id (data (syncFiles openedConnection brainId)) = brainId
   \<and> settings_files (settings (data (syncFiles openedConnection brainId)))
       = [sync_file_id file. file \<leftarrow> selectedFiles openedConnection, \<not> is_folder file]
   \<and> settings_folders (settings (data (syncFiles openedConnection brainId)))
       = [sync_file_id file. file \<leftarrow> selectedFiles openedConnection, is_folder file]"
proof -
  have "map f (filter P xs) = concat (map (\<lambda>x. if P x then [f x] else []) xs)"
    for f :: "KMSElement \<Rightarrow> jsstring option" and P xs
    by (induction xs) simp_all
  then show ?thesis
    by (simp add: syncFiles_def createFilesSettings_def createFoldersSettings_def)
qed

theorem syncFiles_request_witness:
  "http_method (syncFiles (example_sync_connection
      [example_element [0x61] False, example_element [0x62] True,
       example_element [0x63] False]) [0x62]) = POST
   \<and> url (syncFiles (example_sync_connection
      [example_element [0x61] False, example_element [0x62] True,
       example_element [0x63] False]) [0x62]) = ''/sync/active''
   \<and> syncs_user_id (data (syncFiles (example_sync_connection
      [example_element [0x61] False, example_element [0x62] True,
       example_element [0x63] False]) [0x62])) = 5
   \<and> settings_files (settings (data (syncFiles (example_sync_connection
      [example_element [0x61] False, example_element [0x62] True,
       example_element [0x63] False]) [0x62]))) = [Some [0x61], Some [0x63]]
   \<and> settings_folders (settings (data (syncFiles (example_sync_connection
      [example_element [0x61] False, example_element [0x62] True,
       example_element [0x63] False]) [0x62]))) = [Some [0x62]]"
  using syncFiles_request
    [of "example_sync_connection
      [example_element [0x61] False, example_element [0x62] True,
       example_element [0x63] False]" "[0x62]"]
  by (simp add: example_sync_connection_def example_element_def)

section \<open>The rendering of a bulk notification\<close>

text \<open>
  C4. When some member of a bulk notification has status \<^verbatim>\<open>info\<close>, the component renders
  the in-progress state, whatever the other statuses are: the body is the loader wrapper
  with the loader icon and the count, the count carries neither the success nor the warning
  style, and the header uses the wording of a running action.
\<close>

theorem info_member_renders_in_progress:
  assumes "\<exists>notif \<in> set (notifications bn). status notif = info"
  shows "body (Notification bn lastN st)
           = loader_wrapper (LoaderIcon ''small'' ''primary'')
               (NotificationCount (notifications bn)) bn
    \<and> NotificationIcon (notifications bn) = LoaderIcon ''small'' ''primary''
    \<and> className (NotificationCount (notifications bn)) = None
    \<and> header (Notification bn lastN st) = NotificationHeader bn False"
proof -
  have ex: "list_ex (\<lambda>notif. status notif = info) (notifications bn)"
    using assms by (simp add: list_ex_iff)
  have nall: "\<not> list_all (\<lambda>notif. status notif \<noteq> info) (notifications bn)"
    using assms by (simp add: list_all_iff)
  have icon: "NotificationIcon (notifications bn) = LoaderIcon ''small'' ''primary''"
    using ex by (simp add: NotificationIcon_def)
  have cls: "className (NotificationCount (notifications bn)) = None"
    using completed_less_total [OF assms] by (simp add: NotificationCount_def Let_def)
  have bd: "body (Notification bn lastN st)
           = loader_wrapper (LoaderIcon ''small'' ''primary'')
               (NotificationCount (notifications bn)) bn"
    using ex icon by (simp add: Notification_def)
  have hd: "header (Notification bn lastN st) = NotificationHeader bn False"
    using nall by (simp add: Notification_def)
  from bd icon cls hd show ?thesis by simp
qed

theorem info_member_renders_in_progress_witness:
  "(\<exists>notif \<in> set (notifications (example_bulk
        [example_notification [0x61] error, example_notification [0x62] info,
         example_notification [0x63] success])). status notif = info)
   \<and> body (Notification (example_bulk
        [example_notification [0x61] error, example_notification [0x62] info,
         example_notification [0x63] success]) False initialState)
      = loader_wrapper (LoaderIcon ''small'' ''primary'')
          \<lparr>className = None, text_count = ''2 / 3''\<rparr>
          (example_bulk
            [example_notification [0x61] error, example_notification [0x62] info,
             example_notification [0x63] success])
   \<and> header (Notification (example_bulk
        [example_notification [0x61] error, example_notification [0x62] info,
         example_notification [0x63] success]) False initialState) = ''Uploading files ''"
proof -
  have h: "\<exists>notif \<in> set (notifications (example_bulk
        [example_notification [0x61] error, example_notification [0x62] info,
         example_notification [0x63] success])). status notif = info"
    by (simp add: example_bulk_def example_notification_def)
  have cnt: "NotificationCount (notifications (example_bulk
        [example_notification [0x61] error, example_notification [0x62] info,
         example_notification [0x63] success])) = \<lparr>className = None, text_count = ''2 / 3''\<rparr>"
    by (simp add: NotificationCount_def example_bulk_def example_notification_def)
  have hdr: "NotificationHeader (example_bulk
        [example_notification [0x61] error, example_notification [0x62] info,
         example_notification [0x63] success]) False = ''Uploading files ''"
    by (simp add: NotificationHeader_def example_bulk_def)
  from h cnt hdr info_member_renders_in_progress [OF h, of False initialState]
  show ?thesis by simp
qed

text \<open>
  C5. When no member has status \<^verbatim>\<open>info\<close> and none has status \<^verbatim>\<open>error\<close>, the success state
  is rendered: \<^verbatim>\<open>NotificationIcon\<close> is the success check icon and the count has the success
  style; the status report of the component has no error entry, and its success entry
  (success style, check icon, the number of members) is present when there is a member.
\<close>

theorem no_info_no_error_renders_success:
  assumes "\<forall>notif \<in> set (notifications bn). status notif \<noteq> info \<and> status notif \<noteq> error"
  shows "NotificationIcon (notifications bn) = Icon ''success'' ''check'' ''small''
    \<and> className (NotificationCount (notifications bn)) = Some style_success
    \<and> body (Notification bn lastN st)
        = status_report
            (if notifications bn = [] then None
             else Some \<lparr>class_entry = style_success,
                        icon_entry = Icon ''success'' ''check'' ''normal'',
                        count_entry = length (notifications bn)\<rparr>)
            None
    \<and> header (Notification bn lastN st) = NotificationHeader bn True"
proof -
  have allsucc: "\<forall>notif \<in> set (notifications bn). status notif = success"
  proof
    fix notif assume "notif \<in> set (notifications bn)"
    with assms show "status notif = success" by (cases "status notif") auto
  qed
  have noinfo: "\<not> list_ex (\<lambda>notif. status notif = info) (notifications bn)"
    using assms by (simp add: list_ex_iff)
  have noerr: "\<not> list_ex (\<lambda>notif. status notif = error) (notifications bn)"
    using assms by (simp add: list_ex_iff)
  have alls: "list_all (\<lambda>notif. status notif = success) (notifications bn)"
    using allsucc by (simp add: list_all_iff)
  have allp: "list_all (\<lambda>notif. status notif \<noteq> info) (notifications bn)"
    using assms by (simp add: list_all_iff)
  have exs: "list_ex (\<lambda>notif. status notif = success) (notifications bn)
               \<longleftrightarrow> notifications bn \<noteq> []"
    using allsucc by (cases "notifications bn") (simp_all add: list_ex_iff)
  have fl: "filter (\<lambda>notif. status notif = success) (notifications bn) = notifications bn"
    using allsucc by simp
  have icon: "NotificationIcon (notifications bn) = Icon ''success'' ''check'' ''small''"
    using noinfo alls by (simp add: NotificationIcon_def)
  have cls: "className (NotificationCount (notifications bn)) = Some style_success"
    using noerr completed_eq_total [of "notifications bn"] assms
    by (simp add: NotificationCount_def Let_def)
  have bd: "body (Notification bn lastN st)
        = status_report
            (if notifications bn = [] then None
             else Some \<lparr>class_entry = style_success,
                        icon_entry = Icon ''success'' ''check'' ''normal'',
                        count_entry = length (notifications bn)\<rparr>)
            None"
    using noinfo noerr exs fl by (simp add: Notification_def)
  have hd: "header (Notification bn lastN st) = NotificationHeader bn True"
    using allp by (simp add: Notification_def)
  from icon cls bd hd show ?thesis by simp
qed

theorem no_info_no_error_renders_success_witness:
  "list_all (\<lambda>notif. status notif \<noteq> info \<and> status notif \<noteq> error)
      (notifications (example_bulk
        [example_notification [0x61] success, example_notification [0x62] success]))
   \<and> NotificationIcon (notifications (example_bulk
        [example_notification [0x61] success, example_notification [0x62] success]))
      = Icon ''success'' ''check'' ''small''
   \<and> className (NotificationCount (notifications (example_bulk
        [example_notification [0x61] success, example_notification [0x62] success])))
      = Some style_success
   \<and> body (Notification (example_bulk
        [example_notification [0x61] success, example_notification [0x62] success])
        True initialState)
      = status_report
          (Some \<lparr>class_entry = style_success,
                 icon_entry = Icon ''success'' ''check'' ''normal'', count_entry = 2\<rparr>) None"
proof -
  have h: "\<forall>notif \<in> set (notifications (example_bulk
        [example_notification [0x61] success, example_notification [0x62] success])).
      status notif \<noteq> info \<and> status notif \<noteq> error"
    by (simp add: example_bulk_def example_notification_def)
  have ne: "notifications (example_bulk
        [example_notification [0x61] success, example_notification [0x62] success]) \<noteq> []"
    and len: "length (notifications (example_bulk
        [example_notification [0x61] success, example_notification [0x62] success])) = 2"
    by (simp_all add: example_bulk_def)
  have h': "list_all (\<lambda>notif. status notif \<noteq> info \<and> status notif \<noteq> error)
      (notifications (example_bulk
        [example_notification [0x61] success, example_notification [0x62] success]))"
    by (simp add: example_bulk_def example_notification_def)
  from h' ne len no_info_no_error_renders_success [OF h, of True initialState]
  show ?thesis by simp
qed

text \<open>
  C6. When no member has status \<^verbatim>\<open>info\<close> and at least one has status \<^verbatim>\<open>error\<close>, the warning
  state is rendered: \<^verbatim>\<open>NotificationIcon\<close> is the warning icon, the count has the warning
  style and the status report has an error entry. The list of errors is closed until the
  error entry is clicked; once opened it shows exactly the members whose status is
  \<^verbatim>\<open>error\<close>, in their original order.
\<close>

theorem no_info_some_error_renders_warning:
  assumes "\<forall>notif \<in> set (notifications bn). status notif \<noteq> info"
    and "\<exists>notif \<in> set (notifications bn). status notif = error"
    and "\<not> errorsOpened st"
  shows "NotificationIcon (notifications bn) = Icon ''warning'' ''warning'' ''small''
    \<and> className (NotificationCount (notifications bn)) = Some style_warning
    \<and> (\<exists>successes. body (Notification bn lastN st)
          = status_report successes
              (Some \<lparr>class_entry = style_error,
                     icon_entry = Icon ''dangerous'' ''warning'' ''normal'',
                     count_entry =
                       length (filter (\<lambda>notif. status notif = error) (notifications bn))\<rparr>))
    \<and> errors_list (Notification bn lastN st) = None
    \<and> (\<exists>entries. errors_list (Notification bn lastN (onClickError st)) = Some entries
          \<and> map span_title entries
              = map title (filter (\<lambda>notif. status notif = error) (notifications bn))
          \<and> map tooltip entries
              = map description (filter (\<lambda>notif. status notif = error) (notifications bn))
          \<and> map key entries = [0..<length entries]
          \<and> list_all (\<lambda>entry. type_tooltip entry = ''dangerous'') entries)"
proof -
  let ?ns = "notifications bn"
  let ?errs = "filter (\<lambda>notif. status notif = error) ?ns"
  let ?render = "\<lambda>(index, notif).
      \<lparr>tooltip = description notif, key = index,
       type_tooltip = ''dangerous'', span_title = title notif\<rparr>"
  have noinfo: "\<not> list_ex (\<lambda>notif. status notif = info) ?ns"
    using assms(1) by (simp add: list_ex_iff)
  have err: "list_ex (\<lambda>notif. status notif = error) ?ns"
    using assms(2) by (simp add: list_ex_iff)
  have notall: "\<not> list_all (\<lambda>notif. status notif = success) ?ns"
  proof
    assume "list_all (\<lambda>notif. status notif = success) ?ns"
    then have "\<forall>notif \<in> set ?ns. status notif = success" by (simp add: list_all_iff)
    with assms(2) show False by auto
  qed
  have icon: "NotificationIcon ?ns = Icon ''warning'' ''warning'' ''small''"
    using noinfo notall by (simp add: NotificationIcon_def)
  have cls: "className (NotificationCount ?ns) = Some style_warning"
    using err completed_eq_total [OF assms(1)] by (simp add: NotificationCount_def Let_def)
  have bd: "\<exists>successes. body (Notification bn lastN st)
          = status_report successes
              (Some \<lparr>class_entry = style_error,
                     icon_entry = Icon ''dangerous'' ''warning'' ''normal'',
                     count_entry = length ?errs\<rparr>)"
    using noinfo err by (simp add: Notification_def)
  have closed: "errors_list (Notification bn lastN st) = None"
    using assms(3) by (simp add: Notification_def)
  have opened: "errors_list (Notification bn lastN (onClickError st))
                  = Some (map ?render (enumerate 0 ?errs))"
    using assms(3) by (simp add: Notification_def onClickError_def)
  have titles: "map span_title (map ?render (enumerate 0 ?errs)) = map title ?errs"
    by (simp only: rendered_titles)
  have tips: "map tooltip (map ?render (enumerate 0 ?errs)) = map description ?errs"
    by (simp only: rendered_tooltips)
  have keys: "map key (map ?render (enumerate 0 ?errs))
                = [0..<length (map ?render (enumerate 0 ?errs))]"
  proof -
    have "length (map ?render (enumerate 0 ?errs)) = 0 + length ?errs" by simp
    then show ?thesis by (simp only: rendered_keys)
  qed
  have types: "list_all (\<lambda>entry. type_tooltip entry = ''dangerous'')
                 (map ?render (enumerate 0 ?errs))"
    by (simp add: list_all_iff case_prod_beta)
  from opened titles tips keys types
  have op: "\<exists>entries. errors_list (Notification bn lastN (onClickError st)) = Some entries
          \<and> map span_title entries = map title ?errs
          \<and> map tooltip entries = map description ?errs
          \<and> map key entries = [0..<length entries]
          \<and> list_all (\<lambda>entry. type_tooltip entry = ''dangerous'') entries"
    by blast
  from icon cls bd closed op show ?thesis by blast
qed

theorem no_info_some_error_renders_warning_witness:
  "list_all (\<lambda>notif. status notif \<noteq> info) (notifications (example_bulk
        [example_notification [0x61] error, example_notification [0x62] success,
         example_notification [0x63] error]))
   \<and> (\<exists>notif \<in> set (notifications (example_bulk
        [example_notification [0x61] error, example_notification [0x62] success,
         example_notification [0x63] error])). status notif = error)
   \<and> \<not> errorsOpened initialState
   \<and> NotificationIcon (notifications (example_bulk
        [example_notification [0x61] error, example_notification [0x62] success,
         example_notification [0x63] error])) = Icon ''warning'' ''warning'' ''small''
   \<and> (\<exists>entries. errors_list (Notification (example_bulk
        [example_notification [0x61] error, example_notification [0x62] success,
         example_notification [0x63] error]) False (onClickError initialState)) = Some entries
        \<and> map span_title entries = [[0x61], [0x63]])"
proof -
  let ?bn = "example_bulk
        [example_notification [0x61] error, example_notification [0x62] success,
         example_notification [0x63] error]"
  have h1: "\<forall>notif \<in> set (notifications ?bn). status notif \<noteq> info"
    by (simp add: example_bulk_def example_notification_def)
  have h2: "\<exists>notif \<in> set (notifications ?bn). status notif = error"
    by (simp add: example_bulk_def example_notification_def)
  have h3: "\<not> errorsOpened initialState"
    by (simp add: initialState_def)
  have ts: "map title (filter (\<lambda>notif. status notif = error) (notifications ?bn))
              = [[0x61], [0x63]]"
    by (simp add: example_bulk_def example_notification_def)
  from no_info_some_error_renders_warning [OF h1 h2 h3, of False] ts
  have "NotificationIcon (notifications ?bn) = Icon ''warning'' ''warning'' ''small''
    \<and> (\<exists>entries. errors_list (Notification ?bn False (onClickError initialState)) = Some entries
        \<and> map span_title entries = [[0x61], [0x63]])"
    by auto
  moreover have "list_all (\<lambda>notif. status notif \<noteq> info) (notifications ?bn)"
    by (simp add: example_bulk_def example_notification_def)
  ultimately show ?thesis using h2 h3 by blast
qed

text \<open>
  C10. In the in-progress rendering the count shows "completed / total", where total is
  the number of members and completed the number of members whose status is not
  \<^verbatim>\<open>info\<close>; members with status \<^verbatim>\<open>error\<close> count as completed.
\<close>

theorem progress_count_text:
  assumes "\<exists>notif \<in> set (notifications bn). status notif = info"
  shows "body (Notification bn lastN st)
           = loader_wrapper (NotificationIcon (notifications bn))
               (NotificationCount (notifications bn)) bn
    \<and> text_count (NotificationCount (notifications bn))
        = decimal (length (filter (\<lambda>notif. status notif \<noteq> info) (notifications bn)))
          @ '' / '' @ decimal (length (notifications bn))
    \<and> length (filter (\<lambda>notif. status notif \<noteq> info) (notifications bn))
        = length (filter (\<lambda>notif. status notif = success) (notifications bn))
          + length (filter (\<lambda>notif. status notif = error) (notifications bn))"
proof -
  have "list_ex (\<lambda>notif. status notif = info) (notifications bn)"
    using assms by (simp add: list_ex_iff)
  then have bd: "body (Notification bn lastN st)
           = loader_wrapper (NotificationIcon (notifications bn))
               (NotificationCount (notifications bn)) bn"
    by (simp add: Notification_def)
  have shown: "text_count (NotificationCount (notifications bn))
        = decimal (length (filter (\<lambda>notif. status notif \<noteq> info) (notifications bn)))
          @ '' / '' @ decimal (length (notifications bn))"
    by (simp add: NotificationCount_def Let_def)
  from bd shown completed_split [of "notifications bn"] show ?thesis by blast
qed

theorem progress_count_text_witness:
  "(\<exists>notif \<in> set (notifications (example_bulk
        [example_notification [0x61] error, example_notification [0x62] info,
         example_notification [0x63] error, example_notification [0x64] success])).
        status notif = info)
   \<and> text_count (NotificationCount (notifications (example_bulk
        [example_notification [0x61] error, example_notification [0x62] info,
         example_notification [0x63] error, example_notification [0x64] success]))) = ''3 / 4''
   \<and> length (filter (\<lambda>notif. status notif = error) (notifications (example_bulk
        [example_notification [0x61] error, example_notification [0x62] info,
         example_notification [0x63] error, example_notification [0x64] success]))) = 2"
proof -
  let ?bn = "example_bulk
        [example_notification [0x61] error, example_notification [0x62] info,
         example_notification [0x63] error, example_notification [0x64] success]"
  have h: "\<exists>notif \<in> set (notifications ?bn). status notif = info"
    by (simp add: example_bulk_def example_notification_def)
  have c: "length (filter (\<lambda>notif. status notif \<noteq> info) (notifications ?bn)) = 3"
    and t: "length (notifications ?bn) = 4"
    and e: "length (filter (\<lambda>notif. status notif = error) (notifications ?bn)) = 2"
    by (simp_all add: example_bulk_def example_notification_def)
  have d: "decimal 3 @ '' / '' @ decimal 4 = ''3 / 4''"
    by simp
  from progress_count_text [OF h, of False initialState] c t d
  have "text_count (NotificationCount (notifications ?bn)) = ''3 / 4''"
    by simp
  with h e show ?thesis by blast
qed

end
